theory Spec2Isabelle
  imports Complex_Main
begin

section \<open>Numbers, angles and the helpers of the collaborating modules\<close>

text \<open>
  The module \<^verbatim>\<open>sphericalTrigonometry.py\<close> computes with Python floats. They are
  modelled as \<^typ>\<open>real\<close>: rounding is not modelled, every branch, guard, raise and
  formula of the source is. The functions of Python's \<^verbatim>\<open>math\<close> module are the
  real functions of the same name. Two places depart from this, because there
  the floats behave unlike the reals at inputs that matter: the tangent at its
  pole (\<open>tan_2\<close> below), and the tests that \<^verbatim>\<open>intersection\<close> makes on computed
  sines, for which the function is also modelled over an arbitrary arithmetic
  (\<open>intersection_fl\<close>).

  The source imports its constants and small helpers from the sibling modules
  \<^verbatim>\<open>fmath\<close>, \<^verbatim>\<open>formy\<close>, \<^verbatim>\<open>utily\<close>, \<^verbatim>\<open>points\<close> and \<^verbatim>\<open>vector3d\<close>. Each of them is
  modelled below from what the specification says about it, and marked so.
\<close>

datatype error =
    Radius_invalid          \<comment> \<open>\<^verbatim>\<open>ValueError('radius invalid: ...')\<close>\<close>
  | Too_few_points nat      \<comment> \<open>\<^verbatim>\<open>ValueError('too few points: n')\<close>\<close>
  | Intersection_parallel   \<comment> \<open>\<^verbatim>\<open>ValueError('intersection parallel: ...')\<close>\<close>
  | Intersection_infinite   \<comment> \<open>\<^verbatim>\<open>ValueError('intersection infinite: ...')\<close>\<close>
  | Intersection_ambiguous  \<comment> \<open>\<^verbatim>\<open>ValueError('intersection ambiguous: ...')\<close>\<close>
  | Non_convex              \<comment> \<open>\<^verbatim>\<open>ValueError('non-convex: ...')\<close>\<close>
  | Cross_error             \<comment> \<open>\<^verbatim>\<open>CrossError('coincident points: ...')\<close>\<close>

text \<open>A point: latitude and longitude in degrees, and a height.\<close>

record latlon =
  lat :: real
  lon :: real
  height :: real

text \<open>Modelled from the spec: the small positive epsilon of \<^verbatim>\<open>fmath\<close>
  (the machine epsilon of a double).\<close>

definition EPS :: real where
  "EPS = 1 / 2 ^ 52"

text \<open>Modelled from the spec: the constants \<open>2\<pi>\<close> and \<open>\<pi>/2\<close> of \<^verbatim>\<open>utily\<close>.\<close>

definition PI2 :: real where
  "PI2 = 2 * pi"

definition PI_2 :: real where
  "PI_2 = pi / 2"

text \<open>Python's \<^verbatim>\<open>math.radians\<close>, \<^verbatim>\<open>math.degrees\<close>, \<^verbatim>\<open>math.atan2\<close>,
  \<^verbatim>\<open>math.copysign\<close> and the float remainder \<^verbatim>\<open>%\<close> (the sign of the divisor).
  A real zero stands for the float \<^verbatim>\<open>+0.0\<close>. \<^verbatim>\<open>math.asin\<close> is \<^term>\<open>arcsin\<close>: where the
  source calls it the argument is a product of sines or the sine of a
  latitude, within \<open>[-1, 1]\<close> in exact arithmetic, so its domain error is no
  branch of the model.\<close>

definition radians :: "real \<Rightarrow> real" where
  "radians d = d * pi / 180"

definition degrees :: "real \<Rightarrow> real" where
  "degrees r = r * 180 / pi"

definition atan2 :: "real \<Rightarrow> real \<Rightarrow> real" where
  "atan2 y x =
     (if 0 < x then arctan (y / x)
      else if x < 0 then (if 0 \<le> y then arctan (y / x) + pi else arctan (y / x) - pi)
      else if 0 < y then pi / 2
      else if y < 0 then - (pi / 2)
      else 0)"

definition copysign :: "real \<Rightarrow> real \<Rightarrow> real" where
  "copysign m s = (if 0 \<le> s then \<bar>m\<bar> else - \<bar>m\<bar>)"

definition fmod :: "real \<Rightarrow> real \<Rightarrow> real" where
  "fmod x m = x - m * of_int \<lfloor>x / m\<rfloor>"

text \<open>Modelled from the spec: \<^verbatim>\<open>fmath.acos1\<close>, the inverse cosine with its argument
  clamped to \<open>[-1, 1]\<close>.\<close>

definition acos1 :: "real \<Rightarrow> real" where
  "acos1 x = arccos (max (- 1) (min 1 x))"

text \<open>Modelled from the spec: \<^verbatim>\<open>fmath.favg\<close>, the weighted average of two values,
  the simple average for the default fraction \<open>1/2\<close>.\<close>

definition favg :: "real \<Rightarrow> real \<Rightarrow> real \<Rightarrow> real" where
  "favg v1 v2 f = v1 + f * (v2 - v1)"

text \<open>Modelled from the spec: \<^verbatim>\<open>fmath.fsum\<close>, the error-compensated sum; over the
  reals it is the exact sum.\<close>

definition fsum :: "real list \<Rightarrow> real" where
  "fsum xs = sum_list xs"

text \<open>Modelled from the spec: \<^verbatim>\<open>utily._wrap\<close>, the representative of an angle
  modulo \<open>m\<close> in the half-open range \<open>(wrap - m, wrap]\<close>, and the wrappers
  built on it: \<^verbatim>\<open>wrapPI\<close> into \<open>(-\<pi>, \<pi>]\<close>, \<^verbatim>\<open>radiansPI2\<close> (degrees to radians in
  \<open>[0, 2\<pi>)\<close>), \<^verbatim>\<open>degrees180\<close> (radians to degrees in \<open>(-180, 180]\<close>) and
  \<^verbatim>\<open>degrees90\<close> (radians to degrees, wrapped at \<open>90\<close>; the identity on the
  latitudes \<open>[-90, 90]\<close>).\<close>

definition wrap_angle :: "real \<Rightarrow> real \<Rightarrow> real \<Rightarrow> real" where
  "wrap_angle angle wrap m =
     (let r = fmod angle m in if wrap < r then r - m else r)"

definition wrapPI :: "real \<Rightarrow> real" where
  "wrapPI rad = wrap_angle rad pi PI2"

definition radiansPI2 :: "real \<Rightarrow> real" where
  "radiansPI2 deg = wrap_angle (radians deg) PI2 PI2"

definition degrees90 :: "real \<Rightarrow> real" where
  "degrees90 rad = wrap_angle (degrees rad) 90 360"

definition degrees180 :: "real \<Rightarrow> real" where
  "degrees180 rad = wrap_angle (degrees rad) 180 360"

text \<open>Modelled from the spec: \<^verbatim>\<open>utily.tan_2\<close>, the tangent of half an angle.
  Python's \<^verbatim>\<open>math.tan\<close> has no pole: the float nearest to \<open>\<pi>/2\<close> lies just below
  it and the tangent there is \<^verbatim>\<open>1.633123935319537e+16\<close>, with the sign of the
  argument. That value stands for the tangent where the exact one does not
  exist.\<close>

definition TAN_POLE :: real where
  "TAN_POLE = 16331239353195370"

definition tan_2 :: "real \<Rightarrow> real" where
  "tan_2 rad =
     (let x = rad / 2 in
      if cos x = 0 then (if 0 < x then TAN_POLE else - TAN_POLE) else tan x)"

text \<open>Modelled from the spec: \<^verbatim>\<open>utily.unrollPI\<close>. It returns the longitude difference
  and the second longitude; with \<open>wrap\<close> set, a difference beyond half a turn is
  replaced by its equivalent in \<open>(-\<pi>, \<pi>]\<close> and the second longitude is unrolled
  to the first one plus that difference.\<close>

definition unrollPI :: "real \<Rightarrow> real \<Rightarrow> bool \<Rightarrow> real \<times> real" where
  "unrollPI rad1 rad2 wrap =
     (let r = rad2 - rad1 in
      if wrap \<and> pi < \<bar>r\<bar> then
        (let u = wrapPI r in if u \<noteq> r then (u, rad1 + u) else (r, rad2))
      else (r, rad2))"

text \<open>Modelled from the spec: \<^verbatim>\<open>formy.haversine_\<close>, the haversine angular distance
  (radians) between two latitudes \<open>a2\<close>, \<open>a1\<close> with longitude difference \<open>b21\<close>.\<close>

definition haversine_rad :: "real \<Rightarrow> real \<Rightarrow> real \<Rightarrow> real" where
  "haversine_rad a2 a1 b21 =
     (let h = (sin ((a2 - a1) / 2))\<^sup>2 + cos a1 * cos a2 * (sin (b21 / 2))\<^sup>2
      in atan2 (sqrt h) (sqrt (1 - h)) * 2)"

text \<open>Modelled from the spec: \<^verbatim>\<open>formy.bearing_\<close>, the initial bearing (radians in
  \<open>[0, 2\<pi>)\<close>) from \<open>(a1, b1)\<close> to \<open>(a2, b2)\<close>; only the initial bearing is used by
  the source.\<close>

definition bearing_rad :: "real \<Rightarrow> real \<Rightarrow> real \<Rightarrow> real \<Rightarrow> bool \<Rightarrow> real" where
  "bearing_rad a1 b1 a2 b2 wrap =
     (let (db, b2') = unrollPI b1 b2 wrap;
          x = cos a1 * sin a2 - sin a1 * cos a2 * cos db;
          y = sin db * cos a2
      in fmod (atan2 y x + PI2) PI2)"

text \<open>Modelled from the spec: the accessors of a point. \<^verbatim>\<open>to2ab\<close> gives latitude and
  longitude in radians, \<^verbatim>\<open>_havg\<close> the weighted average of two heights.\<close>

definition to2ab :: "latlon \<Rightarrow> real \<times> real" where
  "to2ab p = (radians (lat p), radians (lon p))"

definition havg :: "latlon \<Rightarrow> latlon \<Rightarrow> real \<Rightarrow> real" where
  "havg p other f = favg (height p) (height other) f"

section \<open>Destination and intersection\<close>

text \<open>\<^verbatim>\<open>_destination2(a, b, r, t)\<close>.\<close>

definition destination2 :: "real \<Rightarrow> real \<Rightarrow> real \<Rightarrow> real \<Rightarrow> real \<times> real" where
  "destination2 a b r t =
     (let ca = cos a; cr = cos r; ct = cos t;
          sa = sin a; sr = sin r; st = sin t;
          a' = arcsin (ct * sr * ca + cr * sa);
          d = atan2 (st * sr * ca) (cr - sa * sin a')
      in (degrees90 a', degrees180 (b + d)))"

text \<open>
  \<^verbatim>\<open>intersection(start1, bearing1, start2, bearing2, height=None, wrap=False, LatLon)\<close>.
  The result is the triple \<open>(lat, lon, height)\<close> that the function returns when
  \<^verbatim>\<open>LatLon\<close> is \<^verbatim>\<open>None\<close> and hands to the point class otherwise. The keyword
  \<^verbatim>\<open>height\<close> is an option, \<^verbatim>\<open>None\<close> being the default.
\<close>

definition intersection ::
  "latlon \<Rightarrow> real \<Rightarrow> latlon \<Rightarrow> real \<Rightarrow> real option \<Rightarrow> bool \<Rightarrow> error + real \<times> real \<times> real"
where
  "intersection start1 bearing1 start2 bearing2 height' wrap =
     (let (a1, b1) = to2ab start1;
          (a2, b2) = to2ab start2;
          (db, b2) = unrollPI b1 b2 wrap;
          r12 = haversine_rad a2 a1 db;
          h = (case height' of None \<Rightarrow> havg start1 start2 (1 / 2) | Some h' \<Rightarrow> h')
      in
      if \<bar>r12\<bar> < EPS then
        Inr (degrees (favg a1 a2 (1 / 2)), degrees (favg b1 b2 (1 / 2)), h)
      else
        (let ca1 = cos a1; ca2 = cos a2; cr12 = cos r12;
             sa1 = sin a1; sa2 = sin a2; sr12 = sin r12;
             x1 = sr12 * ca1; x2 = sr12 * ca2
         in
         if \<bar>x1\<bar> < EPS \<or> \<bar>x2\<bar> < EPS then Inl Intersection_parallel
         else
           (let t1 = acos1 ((sa2 - sa1 * cr12) / x1);
                t2 = acos1 ((sa1 - sa2 * cr12) / x2);
                (t12, t21) = (if 0 < sin db then (t1, PI2 - t2) else (PI2 - t1, t2));
                t13 = radiansPI2 bearing1; t23 = radiansPI2 bearing2;
                x1 = wrapPI (t13 - t12);
                x2 = wrapPI (t21 - t23);
                sx1 = sin x1; sx2 = sin x2
            in
            if sx1 = 0 \<and> sx2 = 0 then Inl Intersection_infinite
            else
              (let sx3 = sx1 * sx2 in
               if sx3 < 0 then Inl Intersection_ambiguous
               else
                 (let cx1 = cos x1; cx2 = cos x2;
                      x3 = acos1 (cr12 * sx3 - cx2 * cx1);
                      r13 = atan2 (sr12 * sx3) (cx2 + cx1 * cos x3);
                      (a, b) = destination2 a1 b1 r13 t13
                  in Inr (a, b, h))))))"

text \<open>
  The quantities the specification of \<^verbatim>\<open>intersection\<close> names: the angular
  separation of the two starts, the two triangle-side sines, and the two turn
  angles (the bearing toward the other start against the path's own bearing).
\<close>

definition separation :: "latlon \<Rightarrow> latlon \<Rightarrow> bool \<Rightarrow> real" where
  "separation start1 start2 wrap =
     haversine_rad (radians (lat start2)) (radians (lat start1))
       (fst (unrollPI (radians (lon start1)) (radians (lon start2)) wrap))"






text \<open>
  The arithmetic of \<^verbatim>\<open>intersection\<close>. Python computes with IEEE doubles: every
  operator and every function of \<^verbatim>\<open>math\<close> rounds, so a computed sine is zero, or a
  computed product negative, at other arguments than over the reals (the sine of
  the float nearest to \<open>\<pi>\<close> is \<^verbatim>\<open>1.2246467991473532e-16\<close>, not \<open>0\<close>). What
  \<^verbatim>\<open>intersection\<close> does with the values it computes is therefore also modelled
  over an arbitrary arithmetic: a record of the operators and \<^verbatim>\<open>math\<close> functions
  the source applies, of the constant \<^verbatim>\<open>PI2\<close>, and of the helpers it imports from
  \<^verbatim>\<open>fmath\<close>, \<^verbatim>\<open>formy\<close>, \<^verbatim>\<open>utily\<close> and the point class
  (\<^verbatim>\<open>to2ab\<close>, \<^verbatim>\<open>unrollPI\<close>, \<^verbatim>\<open>haversine_\<close>, \<^verbatim>\<open>acos1\<close>, \<^verbatim>\<open>favg\<close>, \<^verbatim>\<open>wrapPI\<close>,
  \<^verbatim>\<open>radiansPI2\<close>, \<^verbatim>\<open>degrees90\<close>, \<^verbatim>\<open>degrees180\<close>, \<^verbatim>\<open>_havg\<close>). The values are
  numbers: a finite float is a real. Comparison, \<^verbatim>\<open>abs\<close> and the constant
  \<^verbatim>\<open>EPS\<close> (a power of two) are exact on floats and are the real ones.
\<close>

record fl_arith =
  fl_add :: "real \<Rightarrow> real \<Rightarrow> real"
  fl_sub :: "real \<Rightarrow> real \<Rightarrow> real"
  fl_mul :: "real \<Rightarrow> real \<Rightarrow> real"
  fl_div :: "real \<Rightarrow> real \<Rightarrow> real"
  fl_sin :: "real \<Rightarrow> real"
  fl_cos :: "real \<Rightarrow> real"
  fl_asin :: "real \<Rightarrow> real"
  fl_atan2 :: "real \<Rightarrow> real \<Rightarrow> real"
  fl_degrees :: "real \<Rightarrow> real"
  fl_PI2 :: real
  fl_to2ab :: "latlon \<Rightarrow> real \<times> real"
  fl_unrollPI :: "real \<Rightarrow> real \<Rightarrow> bool \<Rightarrow> real \<times> real"
  fl_haversine :: "real \<Rightarrow> real \<Rightarrow> real \<Rightarrow> real"
  fl_acos1 :: "real \<Rightarrow> real"
  fl_favg :: "real \<Rightarrow> real \<Rightarrow> real"
  fl_wrapPI :: "real \<Rightarrow> real"
  fl_radiansPI2 :: "real \<Rightarrow> real"
  fl_degrees90 :: "real \<Rightarrow> real"
  fl_degrees180 :: "real \<Rightarrow> real"
  fl_havg :: "latlon \<Rightarrow> latlon \<Rightarrow> real"

text \<open>\<^verbatim>\<open>_destination2\<close> and \<^verbatim>\<open>intersection\<close> once more, every operation taken from
  the arithmetic \<open>M\<close>, in the order in which Python evaluates the expressions of
  the source.\<close>

definition destination2_fl :: "fl_arith \<Rightarrow> real \<Rightarrow> real \<Rightarrow> real \<Rightarrow> real \<Rightarrow> real \<times> real" where
  "destination2_fl M a b r t =
     (let ca = fl_cos M a; cr = fl_cos M r; ct = fl_cos M t;
          sa = fl_sin M a; sr = fl_sin M r; st = fl_sin M t;
          a' = fl_asin M (fl_add M (fl_mul M (fl_mul M ct sr) ca) (fl_mul M cr sa));
          d = fl_atan2 M (fl_mul M (fl_mul M st sr) ca) (fl_sub M cr (fl_mul M sa (fl_sin M a')))
      in (fl_degrees90 M a', fl_degrees180 M (fl_add M b d)))"

definition intersection_fl ::
  "fl_arith \<Rightarrow> latlon \<Rightarrow> real \<Rightarrow> latlon \<Rightarrow> real \<Rightarrow> real option \<Rightarrow> bool
     \<Rightarrow> error + real \<times> real \<times> real"
where
  "intersection_fl M start1 bearing1 start2 bearing2 height' wrap =
     (let (a1, b1) = fl_to2ab M start1;
          (a2, b2) = fl_to2ab M start2;
          (db, b2) = fl_unrollPI M b1 b2 wrap;
          r12 = fl_haversine M a2 a1 db;
          h = (case height' of None \<Rightarrow> fl_havg M start1 start2 | Some h' \<Rightarrow> h')
      in
      if \<bar>r12\<bar> < EPS then
        Inr (fl_degrees M (fl_favg M a1 a2), fl_degrees M (fl_favg M b1 b2), h)
      else
        (let ca1 = fl_cos M a1; ca2 = fl_cos M a2; cr12 = fl_cos M r12;
             sa1 = fl_sin M a1; sa2 = fl_sin M a2; sr12 = fl_sin M r12;
             x1 = fl_mul M sr12 ca1; x2 = fl_mul M sr12 ca2
         in
         if \<bar>x1\<bar> < EPS \<or> \<bar>x2\<bar> < EPS then Inl Intersection_parallel
         else
           (let t1 = fl_acos1 M (fl_div M (fl_sub M sa2 (fl_mul M sa1 cr12)) x1);
                t2 = fl_acos1 M (fl_div M (fl_sub M sa1 (fl_mul M sa2 cr12)) x2);
                (t12, t21) = (if 0 < fl_sin M db then (t1, fl_sub M (fl_PI2 M) t2)
                              else (fl_sub M (fl_PI2 M) t1, t2));
                t13 = fl_radiansPI2 M bearing1; t23 = fl_radiansPI2 M bearing2;
                x1 = fl_wrapPI M (fl_sub M t13 t12);
                x2 = fl_wrapPI M (fl_sub M t21 t23);
                sx1 = fl_sin M x1; sx2 = fl_sin M x2
            in
            if sx1 = 0 \<and> sx2 = 0 then Inl Intersection_infinite
            else
              (let sx3 = fl_mul M sx1 sx2 in
               if sx3 < 0 then Inl Intersection_ambiguous
               else
                 (let cx1 = fl_cos M x1; cx2 = fl_cos M x2;
                      x3 = fl_acos1 M (fl_sub M (fl_mul M cr12 sx3) (fl_mul M cx2 cx1));
                      r13 = fl_atan2 M (fl_mul M sr12 sx3)
                              (fl_add M cx2 (fl_mul M cx1 (fl_cos M x3)));
                      (a, b) = destination2_fl M a1 b1 r13 t13
                  in Inr (a, b, h))))))"






text \<open>The exact arithmetic: the real operations, and the helpers as modelled above.
  Over it \<open>intersection_fl\<close> is \<open>intersection\<close>.\<close>

definition exact :: fl_arith where
  "exact = \<lparr>fl_add = (+), fl_sub = (-), fl_mul = (*), fl_div = (/),
            fl_sin = sin, fl_cos = cos, fl_asin = arcsin, fl_atan2 = atan2,
            fl_degrees = degrees, fl_PI2 = PI2, fl_to2ab = to2ab, fl_unrollPI = unrollPI,
            fl_haversine = haversine_rad, fl_acos1 = acos1,
            fl_favg = (\<lambda>v1 v2. favg v1 v2 (1 / 2)), fl_wrapPI = wrapPI,
            fl_radiansPI2 = radiansPI2, fl_degrees90 = degrees90, fl_degrees180 = degrees180,
            fl_havg = (\<lambda>p other. havg p other (1 / 2))\<rparr>"


section \<open>Track distances\<close>

text \<open>Modelled from the spec: the strict-mode switch \<^verbatim>\<open>vector3d.crosserrors()\<close>; it
  only matters to a caller that asks for it with \<^verbatim>\<open>raiser=True\<close>.\<close>

definition crosserrors :: bool where
  "crosserrors = True"

text \<open>\<^verbatim>\<open>LatLon.distanceTo(other, radius, wrap)\<close> and
  \<^verbatim>\<open>LatLon.initialBearingTo(other, wrap, raiser)\<close>.\<close>

definition distanceTo :: "latlon \<Rightarrow> latlon \<Rightarrow> real \<Rightarrow> bool \<Rightarrow> real" where
  "distanceTo p other radius wrap =
     (let (a1, b1) = to2ab p;
          (a2, b2) = to2ab other;
          (db, b2) = unrollPI b1 b2 wrap;
          r = haversine_rad a2 a1 db
      in r * radius)"

definition initialBearingTo :: "latlon \<Rightarrow> latlon \<Rightarrow> bool \<Rightarrow> bool \<Rightarrow> error + real" where
  "initialBearingTo p other wrap raiser =
     (let (a1, b1) = to2ab p;
          (a2, b2) = to2ab other
      in if raiser \<and> crosserrors \<and> max \<bar>a2 - a1\<bar> \<bar>b2 - b1\<bar> < EPS then Inl Cross_error
         else Inr (degrees (bearing_rad a1 b1 a2 b2 wrap)))"

text \<open>\<^verbatim>\<open>LatLon._trackDistanceTo3(start, end, radius, wrap)\<close>; the first argument is
  the point the method is called on.\<close>

definition trackDistanceTo3 ::
  "latlon \<Rightarrow> latlon \<Rightarrow> latlon \<Rightarrow> real \<Rightarrow> bool \<Rightarrow> error + real \<times> real \<times> real"
where
  "trackDistanceTo3 self start end' radius wrap =
     (let r = radius in
      if r < EPS then Inl Radius_invalid
      else
        (let r = distanceTo start self r wrap / r in
         case initialBearingTo start self wrap False of
           Inl err \<Rightarrow> Inl err
         | Inr bd \<Rightarrow>
             (case initialBearingTo start end' wrap False of
                Inl err \<Rightarrow> Inl err
              | Inr ed \<Rightarrow>
                  (let b = radians bd; e = radians ed;
                       x = arcsin (sin r * sin (b - e))
                   in Inr (r, x, e - b)))))"

text \<open>\<^verbatim>\<open>LatLon.alongTrackDistanceTo\<close> and \<^verbatim>\<open>LatLon.crossTrackDistanceTo\<close>.\<close>

definition alongTrackDistanceTo ::
  "latlon \<Rightarrow> latlon \<Rightarrow> latlon \<Rightarrow> real \<Rightarrow> bool \<Rightarrow> error + real"
where
  "alongTrackDistanceTo self start end' radius wrap =
     (case trackDistanceTo3 self start end' radius wrap of
        Inl err \<Rightarrow> Inl err
      | Inr (r, x, b) \<Rightarrow>
          (let cx = cos x in
           if EPS < \<bar>cx\<bar> then Inr (copysign (acos1 (cos r / cx)) (cos b) * radius)
           else Inr 0))"

definition crossTrackDistanceTo ::
  "latlon \<Rightarrow> latlon \<Rightarrow> latlon \<Rightarrow> real \<Rightarrow> bool \<Rightarrow> error + real"
where
  "crossTrackDistanceTo self start end' radius wrap =
     (case trackDistanceTo3 self start end' radius wrap of
        Inl err \<Rightarrow> Inl err
      | Inr (r, x, b) \<Rightarrow> Inr (x * radius))"

text \<open>
  The along-track distance as the specification words it, from the haversine
  angular distance \<open>r\<close> start to query, the initial bearings \<open>b\<close> (start to query)
  and \<open>e\<close> (start to end), and \<open>x = asin (sin r \<sqdot> sin (b - e))\<close>. The sign is the
  one \<^verbatim>\<open>copysign\<close> transfers: \<open>+1\<close> for a non-negative argument, \<open>-1\<close> for a
  negative one.
\<close>

definition initial_bearing :: "latlon \<Rightarrow> latlon \<Rightarrow> bool \<Rightarrow> real" where
  "initial_bearing p other wrap =
     bearing_rad (radians (lat p)) (radians (lon p)) (radians (lat other)) (radians (lon other)) wrap"

definition clamp :: "real \<Rightarrow> real \<Rightarrow> real \<Rightarrow> real" where
  "clamp v lo hi = max lo (min hi v)"

definition sign_of :: "real \<Rightarrow> real" where
  "sign_of s = (if 0 \<le> s then 1 else - 1)"

definition spec_alongTrack :: "latlon \<Rightarrow> latlon \<Rightarrow> latlon \<Rightarrow> real \<Rightarrow> bool \<Rightarrow> real" where
  "spec_alongTrack query start end' radius wrap =
     (let r = separation start query wrap;
          b = initial_bearing start query wrap;
          e = initial_bearing start end' wrap;
          x = arcsin (sin r * sin (b - e))
      in if \<bar>cos x\<bar> \<le> EPS then 0
         else sign_of (cos (b - e)) * arccos (clamp (cos r / cos x) (- 1) 1) * radius)"

section \<open>Polygons: area and perimeter\<close>

text \<open>Modelled from the spec: \<^verbatim>\<open>points2(points, closed)\<close> of \<^verbatim>\<open>points\<close>, the check
  every polygon function starts with. A closed polygon is closed by the
  function itself, so duplicate or closing final points are dropped first;
  fewer than 3 points for a polygon, 2 for a path, is an error. It returns the
  number of points and the points. Two points are the same when latitude and
  longitude agree. The loop that drops the final points counts \<open>n\<close> down.\<close>

definition same_point :: "latlon \<Rightarrow> latlon \<Rightarrow> bool" where
  "same_point p q = (lat p = lat q \<and> lon p = lon q)"

fun closing_count :: "latlon list \<Rightarrow> nat \<Rightarrow> nat" where
  "closing_count ps 0 = 0"
| "closing_count ps (Suc m) =
     (if 1 < Suc m \<and> (same_point (ps ! m) (ps ! 0) \<or> same_point (ps ! m) (ps ! (m - 1)))
      then closing_count ps m else Suc m)"

definition points2 :: "latlon list \<Rightarrow> bool \<Rightarrow> error + nat \<times> latlon list" where
  "points2 points closed' =
     (let n = (if closed' then closing_count points (length points) else length points);
          points = (if closed' then take n points else points)
      in if n < (if closed' then 3 else 2) then Inl (Too_few_points n)
         else Inr (n, points))"

text \<open>Modelled from the spec: \<^verbatim>\<open>_imdex2(closed, n)\<close> of \<^verbatim>\<open>points\<close>, the index of the
  point the first edge starts from and the index the loop starts at.\<close>

definition imdex2 :: "bool \<Rightarrow> nat \<Rightarrow> nat \<times> nat" where
  "imdex2 closed' n = (if closed' then (n - 1, 0) else (0, 1))"

text \<open>\<^verbatim>\<open>isPoleEnclosedBy(points, wrap=False)\<close> forwards to \<^verbatim>\<open>ispolar\<close> of the
  module \<^verbatim>\<open>points\<close>, a collaborator known by its contract only: the predicate is
  a parameter.\<close>

definition isPoleEnclosedBy :: "(latlon list \<Rightarrow> bool \<Rightarrow> bool) \<Rightarrow> latlon list \<Rightarrow> bool \<Rightarrow> bool" where
  "isPoleEnclosedBy ispolar points wrap = ispolar points wrap"

text \<open>The loop of \<^verbatim>\<open>areaOf\<close> over the points, carrying \<open>ta1\<close> (the half-latitude
  tangent of the previous point) and \<open>b1\<close> (its unrolled longitude). It is the
  same in the generator \<^verbatim>\<open>_exs\<close> and in the plain loop.\<close>

fun exs :: "bool \<Rightarrow> real \<Rightarrow> real \<Rightarrow> latlon list \<Rightarrow> real list" where
  "exs wrap ta1 b1 [] = []"
| "exs wrap ta1 b1 (p # ps) =
     (let (a2, b2) = to2ab p;
          (db, b2) = unrollPI b1 b2 wrap;
          ta2 = tan_2 a2; tdb = tan_2 db
      in atan2 (tdb * (ta1 + ta2)) (1 + ta1 * ta2) # exs wrap ta2 b2 ps)"

text \<open>\<^verbatim>\<open>areaOf(points, radius, wrap)\<close>. The flag \<open>np\<close> is the value of
  \<^verbatim>\<open>iterNumpy2(points)\<close>, which depends on the container the points come in.\<close>

definition areaOf ::
  "(latlon list \<Rightarrow> bool \<Rightarrow> bool) \<Rightarrow> bool \<Rightarrow> latlon list \<Rightarrow> real \<Rightarrow> bool \<Rightarrow> error + real"
where
  "areaOf ispolar np points radius wrap =
     (case points2 points True of
        Inl err \<Rightarrow> Inl err
      | Inr (n, points) \<Rightarrow>
          (let s = (if np then
                      (let (a1, b1) = to2ab (points ! (n - 1)); ta1 = tan_2 a1
                       in fsum (exs wrap ta1 b1 (take n points)) * 2)
                    else
                      (let (a1, b1) = to2ab (points ! (n - 1)); ta1 = tan_2 a1
                       in fsum (exs wrap ta1 b1 (take n points)) * 2));
               s = (if isPoleEnclosedBy ispolar points False then \<bar>s\<bar> - PI2 else s)
           in Inr \<bar>s * radius\<^sup>2\<bar>))"

text \<open>The generator \<^verbatim>\<open>_rads\<close> of \<^verbatim>\<open>perimeterOf\<close> and the function itself.\<close>

fun rads :: "bool \<Rightarrow> real \<Rightarrow> real \<Rightarrow> latlon list \<Rightarrow> real list" where
  "rads wrap a1 b1 [] = []"
| "rads wrap a1 b1 (p # ps) =
     (let (a2, b2) = to2ab p;
          (db, b2) = unrollPI b1 b2 wrap
      in haversine_rad a2 a1 db # rads wrap a2 b2 ps)"

definition perimeterOf :: "latlon list \<Rightarrow> bool \<Rightarrow> real \<Rightarrow> bool \<Rightarrow> error + real" where
  "perimeterOf points closed' radius wrap =
     (case points2 points closed' of
        Inl err \<Rightarrow> Inl err
      | Inr (n, points) \<Rightarrow>
          (let (i, m) = imdex2 closed' n;
               (a1, b1) = to2ab (points ! i);
               r = fsum (rads wrap a1 b1 (drop m (take n points)))
           in Inr (r * radius)))"











section \<open>Convex enclosure\<close>

text \<open>Modelled from the spec: the vectors of \<^verbatim>\<open>vector3d\<close> with cross product, dot
  product, length, and the angle between two vectors, signed by a reference
  vector when one is given; and the unit vector of a point.\<close>

datatype vector3d = Vector3d real real real

fun cross :: "vector3d \<Rightarrow> vector3d \<Rightarrow> vector3d" where
  "cross (Vector3d x1 y1 z1) (Vector3d x2 y2 z2) =
     Vector3d (y1 * z2 - z1 * y2) (z1 * x2 - x1 * z2) (x1 * y2 - y1 * x2)"

fun dot :: "vector3d \<Rightarrow> vector3d \<Rightarrow> real" where
  "dot (Vector3d x1 y1 z1) (Vector3d x2 y2 z2) = x1 * x2 + y1 * y2 + z1 * z2"

fun length3 :: "vector3d \<Rightarrow> real" where
  "length3 (Vector3d x1 y1 z1) = sqrt (x1\<^sup>2 + y1\<^sup>2 + z1\<^sup>2)"

definition angleTo :: "vector3d \<Rightarrow> vector3d \<Rightarrow> vector3d option \<Rightarrow> real" where
  "angleTo v other vSign =
     (let x = cross v other; s = length3 x in
      if s < EPS then 0
      else
        (let s = (case vSign of
                    None \<Rightarrow> s
                  | Some w \<Rightarrow> if dot x w < 0 then - s else s)
         in atan2 s (dot v other)))"

definition toVector3d :: "latlon \<Rightarrow> vector3d" where
  "toVector3d p =
     (let (a, b) = to2ab p in Vector3d (cos a * cos b) (cos a * sin b) (sin a))"

text \<open>The loop of the bulk-array path of \<^verbatim>\<open>isenclosedBy\<close>: one pass, testing the
  side and the convexity at each edge.\<close>

fun enclosed_np :: "vector3d \<Rightarrow> bool \<Rightarrow> vector3d \<Rightarrow> vector3d \<Rightarrow> latlon list \<Rightarrow> error + bool" where
  "enclosed_np n0 t0 v1 gc1 [] = Inr True"
| "enclosed_np n0 t0 v1 gc1 (p # ps) =
     (let v2 = toVector3d p;
          gc = cross v1 v2;
          ti = (PI_2 < angleTo gc n0 None)
      in if ti \<noteq> t0 then Inr False
         else if angleTo gc1 gc (Some n0) < 0 then Inl Non_convex
         else enclosed_np n0 t0 v2 gc ps)"

text \<open>The three loops of the plain-sequence path: the great-circle vector of
  each edge, the side test of the edges after the first, the convexity test.\<close>

fun edge_gcs :: "vector3d \<Rightarrow> latlon list \<Rightarrow> vector3d list" where
  "edge_gcs v1 [] = []"
| "edge_gcs v1 (p # ps) = (let v2 = toVector3d p in cross v1 v2 # edge_gcs v2 ps)"

fun same_side :: "vector3d \<Rightarrow> bool \<Rightarrow> vector3d list \<Rightarrow> bool" where
  "same_side n0 t0 [] = True"
| "same_side n0 t0 (g # gs) =
     (let ti = (PI_2 < angleTo g n0 None) in
      if ti \<noteq> t0 then False else same_side n0 t0 gs)"

fun convex_loop :: "vector3d \<Rightarrow> vector3d \<Rightarrow> vector3d list \<Rightarrow> error + bool" where
  "convex_loop n0 gc1 [] = Inr True"
| "convex_loop n0 gc1 (gc2 # gs) =
     (if angleTo gc1 gc2 (Some n0) < 0 then Inl Non_convex else convex_loop n0 gc2 gs)"

text \<open>\<^verbatim>\<open>LatLon.isenclosedBy(points)\<close>; the first argument \<open>np\<close> is the value of
  \<^verbatim>\<open>iterNumpy2(points)\<close>, the second the point the method is called on.\<close>

definition isenclosedBy :: "bool \<Rightarrow> latlon \<Rightarrow> latlon list \<Rightarrow> error + bool" where
  "isenclosedBy np self points =
     (case points2 points True of
        Inl err \<Rightarrow> Inl err
      | Inr (n, points) \<Rightarrow>
          (let n0 = toVector3d self in
           if np then
             (let v1 = toVector3d (points ! (n - 1));
                  v2 = toVector3d (points ! (n - 2));
                  gc1 = cross v2 v1;
                  t0 = (PI_2 < angleTo gc1 n0 None)
              in enclosed_np n0 t0 v1 gc1 (take n points))
           else
             (let gc = edge_gcs (toVector3d (points ! (n - 1))) (take n points);
                  t0 = (PI_2 < angleTo (gc ! 0) n0 None)
              in if \<not> same_side n0 t0 (drop 1 gc) then Inr False
                 else convex_loop n0 (gc ! (n - 1)) gc)))"

section \<open>Concrete inputs\<close>

text \<open>Three points on the equator, an octant of the sphere, a triangle with an
  edge of exactly \<open>180\<degree>\<close> of longitude, and three pole predicates to put in the
  place of \<^verbatim>\<open>ispolar\<close>: one that answers with its wrap flag, one that always
  finds a pole, one that never does.\<close>

definition equator3 :: "latlon list" where
  "equator3 = [\<lparr>lat = 0, lon = 0, height = 0\<rparr>, \<lparr>lat = 0, lon = 1, height = 0\<rparr>,
               \<lparr>lat = 0, lon = 2, height = 0\<rparr>]"



definition pole_iff_wrap :: "latlon list \<Rightarrow> bool \<Rightarrow> bool" where
  "pole_iff_wrap ps w = w"

definition pole_always :: "latlon list \<Rightarrow> bool \<Rightarrow> bool" where
  "pole_always ps w = True"

definition pole_never :: "latlon list \<Rightarrow> bool \<Rightarrow> bool" where
  "pole_never ps w = False"

section \<open>Valid polygons\<close>



section \<open>A polygon with a notch\<close>

text \<open>A quadrilateral with a reflex corner and the north pole as the query point;
  what it is for the convexity test of \<^verbatim>\<open>isenclosedBy\<close> to fail on a polygon
  (its third loop raises), and the side of an edge the query point is on.\<close>

definition quad4 :: "latlon list" where
  "quad4 = [\<lparr>lat = - 45, lon = 0, height = 0\<rparr>, \<lparr>lat = 45, lon = 90, height = 0\<rparr>,
            \<lparr>lat = - 45, lon = 180, height = 0\<rparr>, \<lparr>lat = - 45, lon = 90, height = 0\<rparr>]"

definition north_pole :: latlon where
  "north_pole = \<lparr>lat = 90, lon = 0, height = 0\<rparr>"

definition convexity_fails :: "latlon \<Rightarrow> latlon list \<Rightarrow> bool" where
  "convexity_fails self points =
     (let n0 = toVector3d self;
          gc = edge_gcs (toVector3d (last points)) points
      in convex_loop n0 (last gc) gc = Inl Non_convex)"

definition side_of_edge :: "latlon \<Rightarrow> latlon list \<Rightarrow> nat \<Rightarrow> bool" where
  "side_of_edge self points i =
     (PI_2 < angleTo (edge_gcs (toVector3d (last points)) points ! i) (toVector3d self) None)"

section \<open>Evaluation at concrete angles\<close>

lemma atan2_same: "0 < x \<Longrightarrow> atan2 x x = pi / 4"
  by (simp add: atan2_def arctan_one)

lemma haversine_radI:
  "h = (sin ((a2 - a1) / 2))\<^sup>2 + cos a1 * cos a2 * (sin (b21 / 2))\<^sup>2 \<Longrightarrow>
   haversine_rad a2 a1 b21 = atan2 (sqrt h) (sqrt (1 - h)) * 2"
  by (simp add: haversine_rad_def Let_def)

lemma haversine_quarter: "haversine_rad 0 0 (pi / 2) = pi / 2"
proof -
  have "1 / 2 = (sin ((0 - 0) / 2))\<^sup>2 + cos 0 * cos 0 * (sin (pi / 2 / 2))\<^sup>2"
    by (simp add: sin_45 power2_eq_square)
  from haversine_radI[OF this] show ?thesis by (simp add: atan2_same)
qed

lemma haversine_quarter_neg: "haversine_rad 0 0 (- (pi / 2)) = pi / 2"
proof -
  have "1 / 2 = (sin ((0 - 0) / 2))\<^sup>2 + cos 0 * cos 0 * (sin (- (pi / 2) / 2))\<^sup>2"
    by (simp add: sin_45 power2_eq_square)
  from haversine_radI[OF this] show ?thesis by (simp add: atan2_same)
qed

lemma EPS_pos: "0 < EPS"
  by (simp add: EPS_def)

lemma EPS_lt_1: "EPS < 1"
  by (simp add: EPS_def)

lemma EPS_lt_pi: "\<not> pi < EPS * 2"
  using pi_ge_two EPS_lt_1 by linarith

lemma fmod_small: "0 \<le> x \<Longrightarrow> x < m \<Longrightarrow> fmod x m = x"
  by (simp add: fmod_def floor_eq_iff)

lemma unroll_nowrap: "unrollPI b1 b2 False = (b2 - b1, b2)"
  by (simp add: unrollPI_def)

lemma wrapPI_0: "wrapPI 0 = 0"
  by (simp add: wrapPI_def wrap_angle_def fmod_def PI2_def Let_def)

lemma wrapPI_3: "wrapPI (3 * pi / 2) = - (pi / 2)"
proof -
  have f: "fmod (3 * pi / 2) (2 * pi) = 3 * pi / 2" by (rule fmod_small) auto
  show ?thesis unfolding wrapPI_def wrap_angle_def PI2_def Let_def f by simp
qed

lemma wrapPI_m3: "wrapPI (- (3 * pi / 2)) = pi / 2"
proof -
  have "\<lfloor>- (3 * pi / 2) / (2 * pi)\<rfloor> = - 1" by (simp add: floor_eq_iff)
  then have f: "fmod (- (3 * pi / 2)) (2 * pi) = pi / 2" by (simp add: fmod_def)
  show ?thesis unfolding wrapPI_def wrap_angle_def PI2_def Let_def f by simp
qed

lemma radiansPI2_90: "radiansPI2 90 = pi / 2"
proof -
  have f: "fmod (pi / 2) (2 * pi) = pi / 2" by (rule fmod_small) auto
  have r: "radians 90 = pi / 2" by (simp add: radians_def)
  show ?thesis unfolding radiansPI2_def r wrap_angle_def PI2_def Let_def f by simp
qed

lemma radiansPI2_0: "radiansPI2 0 = 0"
  by (simp add: radiansPI2_def radians_def wrap_angle_def PI2_def fmod_def Let_def)

lemma dest_a: "destination2 0 0 0 (pi / 2) = (0, 0)"
  by (simp add: destination2_def atan2_def degrees90_def degrees180_def degrees_def wrap_angle_def fmod_def Let_def)

lemma dest_b: "destination2 0 (pi / 2) 0 0 = (0, 90)"
proof -
  have f: "fmod 90 360 = 90" by (rule fmod_small) auto
  have d: "degrees (pi / 2) = 90" by (simp add: degrees_def)
  have w: "degrees180 (pi / 2) = 90" unfolding degrees180_def d wrap_angle_def Let_def f by simp
  have w0: "degrees90 0 = 0" by (simp add: degrees90_def degrees_def wrap_angle_def fmod_def Let_def)
  show ?thesis
  by (simp add: destination2_def atan2_def w w0 Let_def)
qed


lemma haversine_pole: "haversine_rad (pi / 2) (pi / 2) (pi / 2) = 0"
proof -
  have "0 = (sin ((pi / 2 - pi / 2) / 2))\<^sup>2 + cos (pi / 2) * cos (pi / 2) * (sin (pi / 2 / 2))\<^sup>2"
    by simp
  from haversine_radI[OF this] show ?thesis by (simp add: atan2_def)
qed

lemma unroll_pole: "unrollPI pi (- (pi / 2)) True = (pi / 2, 3 * pi / 2)"
proof -
  have r: "- (pi / 2) - pi = - (3 * pi / 2)" by simp
  show ?thesis unfolding unrollPI_def Let_def r wrapPI_m3 by simp
qed

section \<open>Properties of the intersection\<close>

lemma exact_ops:
  "fl_add exact = (+)" "fl_sub exact = (-)" "fl_mul exact = (*)" "fl_div exact = (/)"
  "fl_sin exact = sin" "fl_cos exact = cos" "fl_asin exact = arcsin" "fl_atan2 exact = atan2"
  "fl_degrees exact = degrees" "fl_PI2 exact = PI2" "fl_to2ab exact = to2ab"
  "fl_unrollPI exact = unrollPI" "fl_haversine exact = haversine_rad" "fl_acos1 exact = acos1"
  "fl_favg exact = (\<lambda>v1 v2. favg v1 v2 (1 / 2))" "fl_wrapPI exact = wrapPI"
  "fl_radiansPI2 exact = radiansPI2" "fl_degrees90 exact = degrees90"
  "fl_degrees180 exact = degrees180" "fl_havg exact = (\<lambda>p other. havg p other (1 / 2))"
  by (simp_all add: exact_def)

lemma destination2_exact: "destination2_fl exact = destination2"
  unfolding destination2_fl_def destination2_def exact_ops by (rule refl)

lemma intersection_exact:
  "intersection_fl exact start1 bearing1 start2 bearing2 hgt wrap
     = intersection start1 bearing1 start2 bearing2 hgt wrap"
  unfolding intersection_fl_def intersection_def destination2_exact exact_ops by (rule refl)














text \<open>
  C9. Swapping the labels of the two paths does not always give the same point.
  The first path runs east along the equator from \<open>(0\<degree>, 0\<degree>)\<close>, straight at the
  start \<open>(0\<degree>, 90\<degree>)\<close> of the second path, which runs north. The paths meet at
  \<open>(0\<degree>, 90\<degree>)\<close>; \<^verbatim>\<open>intersection\<close> returns the first start in one order and
  the meeting point in the other.
\<close>

theorem intersection_swap_differs:
  "intersection \<lparr>lat = 0, lon = 0, height = 0\<rparr> 90 \<lparr>lat = 0, lon = 90, height = 0\<rparr> 0 None False
     = Inr (0, 0, 0) \<and>
   intersection \<lparr>lat = 0, lon = 90, height = 0\<rparr> 0 \<lparr>lat = 0, lon = 0, height = 0\<rparr> 90 None False
     = Inr (0, 90, 0)"
proof
  show "intersection \<lparr>lat = 0, lon = 0, height = 0\<rparr> 90 \<lparr>lat = 0, lon = 90, height = 0\<rparr> 0 None False
     = Inr (0, 0, 0)"
    using EPS_pos EPS_lt_1 EPS_lt_pi
    by (simp add: intersection_def to2ab_def radians_def unroll_nowrap haversine_quarter
        acos1_def PI2_def radiansPI2_90 radiansPI2_0 wrapPI_0 wrapPI_3 atan2_def dest_a
        havg_def favg_def Let_def)
  show "intersection \<lparr>lat = 0, lon = 90, height = 0\<rparr> 0 \<lparr>lat = 0, lon = 0, height = 0\<rparr> 90 None False
     = Inr (0, 90, 0)"
    using EPS_pos EPS_lt_1 EPS_lt_pi
    by (simp add: intersection_def to2ab_def radians_def unroll_nowrap haversine_quarter_neg
        acos1_def PI2_def radiansPI2_90 radiansPI2_0 wrapPI_0 wrapPI_m3 atan2_def dest_b
        havg_def favg_def Let_def)
qed

text \<open>
  Away from coincident starts every point \<^verbatim>\<open>intersection\<close> returns comes from
  \<^verbatim>\<open>_destination2\<close>, whose latitude is in \<open>[-90\<degree>, 90\<degree>]\<close> and whose longitude
  is in \<open>(-180\<degree>, 180\<degree>]\<close>.
\<close>

lemma lagrange2:
  "(x * c + y * s)\<^sup>2 + (x * s - y * c)\<^sup>2 = (x\<^sup>2 + y\<^sup>2) * (c\<^sup>2 + s\<^sup>2)" for x :: real
  by algebra

lemma latitude_sine_bounded:
  "\<bar>cos t * sin r * cos a + cos r * sin a\<bar> \<le> 1" for t r a :: real
proof -
  define x where "x = cos t * sin r"
  define y where "y = cos r"
  have "(x * cos a + y * sin a)\<^sup>2 + (x * sin a - y * cos a)\<^sup>2
      = (x\<^sup>2 + y\<^sup>2) * ((cos a)\<^sup>2 + (sin a)\<^sup>2)"
    by (rule lagrange2)
  also have "\<dots> = x\<^sup>2 + y\<^sup>2" by simp
  finally have "(x * cos a + y * sin a)\<^sup>2 \<le> x\<^sup>2 + y\<^sup>2"
    using zero_le_power2[of "x * sin a - y * cos a"] by linarith
  moreover have "x\<^sup>2 \<le> (sin r)\<^sup>2"
  proof -
    have "(cos t)\<^sup>2 \<le> 1" using sin_cos_squared_add[of t] zero_le_power2[of "sin t"] by linarith
    then have "(cos t)\<^sup>2 * (sin r)\<^sup>2 \<le> 1 * (sin r)\<^sup>2"
      by (intro mult_right_mono) auto
    then show ?thesis by (simp add: x_def power_mult_distrib)
  qed
  moreover have "(sin r)\<^sup>2 + y\<^sup>2 = 1" by (simp add: y_def)
  ultimately have "(x * cos a + y * sin a)\<^sup>2 \<le> 1" by linarith
  then have "\<bar>x * cos a + y * sin a\<bar> \<le> 1"
    by (simp add: abs_le_square_iff[of _ 1, simplified])
  then show ?thesis by (simp add: x_def y_def)
qed

lemma fmod_range: "0 < m \<Longrightarrow> 0 \<le> fmod x m \<and> fmod x m < m"
proof -
  assume m: "0 < m"
  have "of_int \<lfloor>x / m\<rfloor> * m \<le> x" "x < (of_int \<lfloor>x / m\<rfloor> + 1) * m"
    using m by (rule floor_divide_lower, rule floor_divide_upper)
  then show ?thesis by (simp add: fmod_def algebra_simps)
qed

lemma degrees180_range: "- 180 < degrees180 r \<and> degrees180 r \<le> 180"
  using fmod_range[of 360 "degrees r"]
  by (auto simp add: degrees180_def wrap_angle_def Let_def)

lemma degrees90_latitude:
  assumes "\<bar>r\<bar> \<le> pi / 2"
  shows "degrees90 r = degrees r" and "\<bar>degrees r\<bar> \<le> 90"
proof -
  have "\<bar>degrees r\<bar> = \<bar>r\<bar> * (180 / pi)" by (simp add: degrees_def abs_mult)
  also have "\<dots> \<le> (pi / 2) * (180 / pi)" using assms by (intro mult_right_mono) auto
  finally show d: "\<bar>degrees r\<bar> \<le> 90" by simp
  show "degrees90 r = degrees r"
  proof (cases "0 \<le> degrees r")
    case True
    then have "fmod (degrees r) 360 = degrees r" using d by (intro fmod_small) auto
    then show ?thesis using d True by (simp add: degrees90_def wrap_angle_def Let_def)
  next
    case False
    then have "\<lfloor>degrees r / 360\<rfloor> = - 1" using d by (simp add: floor_eq_iff)
    then have "fmod (degrees r) 360 = degrees r + 360" by (simp add: fmod_def)
    then show ?thesis using d False by (simp add: degrees90_def wrap_angle_def Let_def)
  qed
qed

lemma destination2_normalized:
  "- 90 \<le> fst (destination2 a b r t)" "fst (destination2 a b r t) \<le> 90"
  "- 180 < snd (destination2 a b r t)" "snd (destination2 a b r t) \<le> 180"
proof -
  define a' where "a' = arcsin (cos t * sin r * cos a + cos r * sin a)"
  have z: "- 1 \<le> cos t * sin r * cos a + cos r * sin a" "cos t * sin r * cos a + cos r * sin a \<le> 1"
    using latitude_sine_bounded[of t r a] by (simp_all add: abs_le_iff)
  have "- (pi / 2) \<le> a'" "a' \<le> pi / 2"
    unfolding a'_def using arcsin_bounded[OF z] by simp_all
  then have "\<bar>a'\<bar> \<le> pi / 2" by (simp add: abs_le_iff)
  from degrees90_latitude[OF this] have l: "\<bar>degrees90 a'\<bar> \<le> 90" by simp
  have f: "fst (destination2 a b r t) = degrees90 a'"
    by (simp add: destination2_def Let_def a'_def)
  show "- 90 \<le> fst (destination2 a b r t)" "fst (destination2 a b r t) \<le> 90"
    unfolding f using l by (simp_all add: abs_le_iff)
  show "- 180 < snd (destination2 a b r t)" "snd (destination2 a b r t) \<le> 180"
    using degrees180_range by (simp_all add: destination2_def Let_def)
qed

lemma intersection_normalized_apart:
  assumes "EPS \<le> separation start1 start2 wrap"
      and "intersection start1 bearing1 start2 bearing2 hgt wrap = Inr (la, lo, h)"
  shows "- 90 \<le> la \<and> la \<le> 90 \<and> - 180 < lo \<and> lo \<le> 180"
proof -
  have sep: "\<not> \<bar>separation start1 start2 wrap\<bar> < EPS" using assms(1) by linarith
  show ?thesis
    using assms(2) sep
    unfolding intersection_def separation_def to2ab_def
    by (auto simp add: Let_def split_beta destination2_normalized split: if_splits)
qed

text \<open>
  C7. The coincident-starts branch of \<^verbatim>\<open>intersection\<close> converts the averaged
  coordinates with plain \<^verbatim>\<open>degrees\<close> and does not normalize them. For two starts at the north pole with
  longitudes \<open>180\<degree>\<close> and \<open>-90\<degree>\<close> and \<open>wrap\<close> set, the second longitude is unrolled
  to \<open>270\<degree>\<close> and the returned longitude is \<open>225\<degree>\<close>, outside \<open>(-180\<degree>, 180\<degree>]\<close>.
\<close>

theorem intersection_coincident_longitude:
  "intersection \<lparr>lat = 90, lon = 180, height = 0\<rparr> 0 \<lparr>lat = 90, lon = - 90, height = 0\<rparr> 0 None True
     = Inr (90, 225, 0)"
proof -
  have a: "radians 90 = pi / 2" "radians 180 = pi" "radians (- 90) = - (pi / 2)"
    by (simp_all add: radians_def)
  have d: "degrees (pi / 2) = 90" "degrees (5 * pi / 4) = 225" by (simp_all add: degrees_def)
  have f: "favg (pi / 2) (pi / 2) (1 / 2) = pi / 2" "favg pi (3 * pi / 2) (1 / 2) = 5 * pi / 4"
    by (simp_all add: favg_def)
  show ?thesis
    unfolding intersection_def to2ab_def Let_def
    using EPS_pos
    by (simp add: a unroll_pole haversine_pole f d havg_def favg_def)
qed

section \<open>Track distances and the radius\<close>

lemma radians_degrees: "radians (degrees x) = x"
  by (simp add: radians_def degrees_def)

lemma acos1_nonneg: "0 \<le> acos1 z"
  unfolding acos1_def by (rule arccos_lbound) auto

lemma copysign_acos1: "copysign (acos1 z) c = sign_of c * arccos (clamp z (- 1) 1)"
  using acos1_nonneg[of z] by (simp add: copysign_def sign_of_def acos1_def clamp_def)

lemma track3:
  assumes "EPS \<le> radius"
  shows "trackDistanceTo3 q s e radius wrap =
     Inr (separation s q wrap,
          arcsin (sin (separation s q wrap) * sin (initial_bearing s q wrap - initial_bearing s e wrap)),
          initial_bearing s e wrap - initial_bearing s q wrap)"
proof -
  have r: "radius \<noteq> 0" "\<not> radius < EPS" using assms EPS_pos by auto
  show ?thesis
    using r
    by (simp add: trackDistanceTo3_def distanceTo_def initialBearingTo_def separation_def
        initial_bearing_def to2ab_def radians_degrees Let_def split_beta)
qed

lemma track3_invalid: "radius < EPS \<Longrightarrow> trackDistanceTo3 q s e radius wrap = Inl Radius_invalid"
  by (simp add: trackDistanceTo3_def)

lemma areaOf_not_radius: "areaOf ip np pts radius wrap \<noteq> Inl Radius_invalid"
  by (simp add: areaOf_def points2_def Let_def split: sum.splits prod.splits)

lemma perimeterOf_not_radius: "perimeterOf pts c radius wrap \<noteq> Inl Radius_invalid"
  by (simp add: perimeterOf_def points2_def Let_def split: sum.splits prod.splits)

lemma points2_equator3: "points2 equator3 True = Inr (3, equator3)"
  by (simp add: points2_def equator3_def same_point_def numeral_3_eq_3 Let_def)

lemma exs_equator3: "fsum (exs wrap (tan_2 (radians 0)) b equator3) = 0"
  by (simp add: equator3_def to2ab_def tan_2_def radians_def atan2_def fsum_def Let_def split_beta)

lemma area_equator3: "areaOf ip np equator3 radius wrap =
    Inr (if ip equator3 False then 2 * pi * radius\<^sup>2 else 0)"
proof -
  have l: "equator3 ! 2 = \<lparr>lat = 0, lon = 2, height = 0\<rparr>" by (simp add: equator3_def)
  have t: "take 3 equator3 = equator3" by (simp add: equator3_def)
  have "\<bar>2 * pi * radius\<^sup>2\<bar> = 2 * pi * radius\<^sup>2" by simp
  then show ?thesis
    unfolding areaOf_def points2_equator3
    by (simp add: l t to2ab_def Let_def exs_equator3 isPoleEnclosedBy_def PI2_def abs_mult)
qed

text \<open>
  C3. With a radius of at least epsilon, \<^verbatim>\<open>alongTrackDistanceTo\<close> returns the
  along-track distance of the specification: with \<open>r\<close>, \<open>b\<close>, \<open>e\<close> and \<open>x\<close> as
  there, \<open>sign (cos (b - e)) \<sqdot> acos (clamp (cos r / cos x, -1, 1)) \<sqdot> radius\<close>, and
  exactly \<open>0\<close> when \<open>\<bar>cos x\<bar>\<close> is within epsilon of zero.
\<close>

theorem alongTrack_formula:
  assumes "EPS \<le> radius"
  shows "alongTrackDistanceTo query start end' radius wrap =
         Inr (spec_alongTrack query start end' radius wrap)"
proof -
  have c: "cos (initial_bearing start end' wrap - initial_bearing start query wrap)
         = cos (initial_bearing start query wrap - initial_bearing start end' wrap)"
    using cos_minus[of "initial_bearing start query wrap - initial_bearing start end' wrap"] by simp
  show ?thesis
    unfolding alongTrackDistanceTo_def track3[OF assms] spec_alongTrack_def
    by (simp add: Let_def copysign_acos1 c)
qed

theorem alongTrack_formula_witness:
  "EPS \<le> 1 \<and>
   alongTrackDistanceTo \<lparr>lat = 1, lon = 1, height = 0\<rparr> \<lparr>lat = 0, lon = 0, height = 0\<rparr>
       \<lparr>lat = 0, lon = 2, height = 0\<rparr> 1 False =
   Inr (spec_alongTrack \<lparr>lat = 1, lon = 1, height = 0\<rparr> \<lparr>lat = 0, lon = 0, height = 0\<rparr>
       \<lparr>lat = 0, lon = 2, height = 0\<rparr> 1 False)"
proof -
  have h: "EPS \<le> 1" using EPS_lt_1 by simp
  from alongTrack_formula[OF h] h show ?thesis by simp
qed

text \<open>
  C6 (amended). \<^verbatim>\<open>alongTrackDistanceTo\<close> and \<^verbatim>\<open>crossTrackDistanceTo\<close> fail with the
  invalid-radius error whenever the radius is below epsilon, whatever the
  geometry; \<^verbatim>\<open>areaOf\<close> and \<^verbatim>\<open>perimeterOf\<close> never reject a radius.
\<close>

theorem radius_validation:
  assumes "radius < EPS"
  shows "alongTrackDistanceTo q s e radius wrap = Inl Radius_invalid \<and>
         crossTrackDistanceTo q s e radius wrap = Inl Radius_invalid \<and>
         areaOf ip np pts radius wrap' \<noteq> Inl Radius_invalid \<and>
         perimeterOf pts c radius wrap' \<noteq> Inl Radius_invalid"
  using assms
  by (simp add: alongTrackDistanceTo_def crossTrackDistanceTo_def track3_invalid
      areaOf_not_radius perimeterOf_not_radius)

theorem radius_validation_witness:
  "(0::real) < EPS \<and>
   alongTrackDistanceTo \<lparr>lat = 1, lon = 1, height = 0\<rparr> \<lparr>lat = 0, lon = 0, height = 0\<rparr>
       \<lparr>lat = 0, lon = 2, height = 0\<rparr> 0 False = Inl Radius_invalid \<and>
   crossTrackDistanceTo \<lparr>lat = 1, lon = 1, height = 0\<rparr> \<lparr>lat = 0, lon = 0, height = 0\<rparr>
       \<lparr>lat = 0, lon = 2, height = 0\<rparr> 0 False = Inl Radius_invalid \<and>
   areaOf pole_never False equator3 0 True \<noteq> Inl Radius_invalid \<and>
   perimeterOf equator3 True 0 True \<noteq> Inl Radius_invalid"
proof -
  have h: "(0::real) < EPS" by (rule EPS_pos)
  from radius_validation[OF h] h show ?thesis by blast
qed

text \<open>
  C6 as stated fails: with radius \<open>0\<close> \<^verbatim>\<open>areaOf\<close> and \<^verbatim>\<open>perimeterOf\<close> return \<open>0\<close>,
  and with a radius of exactly epsilon \<^verbatim>\<open>crossTrackDistanceTo\<close> does not raise
  the invalid-radius error.
\<close>

theorem radius_validation_counterexample:
  "(0::real) \<le> EPS \<and>
   areaOf pole_never False equator3 0 True = Inr 0 \<and>
   perimeterOf equator3 True 0 True = Inr 0 \<and>
   crossTrackDistanceTo \<lparr>lat = 1, lon = 1, height = 0\<rparr> \<lparr>lat = 0, lon = 0, height = 0\<rparr>
       \<lparr>lat = 0, lon = 2, height = 0\<rparr> EPS False \<noteq> Inl Radius_invalid"
proof -
  have "perimeterOf equator3 True 0 True = Inr 0"
    unfolding perimeterOf_def points2_equator3 by (simp add: imdex2_def Let_def split_beta)
  moreover have "crossTrackDistanceTo \<lparr>lat = 1, lon = 1, height = 0\<rparr> \<lparr>lat = 0, lon = 0, height = 0\<rparr>
       \<lparr>lat = 0, lon = 2, height = 0\<rparr> EPS False \<noteq> Inl Radius_invalid"
    by (simp add: crossTrackDistanceTo_def track3)
  ultimately show ?thesis
    using EPS_pos by (simp add: area_equator3 pole_never_def)
qed

section \<open>The area of a polygon\<close>
















text \<open>
  C4 (amended). \<^verbatim>\<open>areaOf\<close> consumes the pole predicate at \<open>wrap = False\<close>, the
  default of \<^verbatim>\<open>isPoleEnclosedBy\<close>, whatever its own wrap argument: two
  predicates that agree there give the same area.
\<close>

theorem area_pole_flag:
  assumes "\<And>ps. ip ps False = ip' ps False"
  shows "areaOf ip np pts radius wrap = areaOf ip' np pts radius wrap"
  using assms by (simp add: areaOf_def isPoleEnclosedBy_def split: sum.splits)

theorem area_pole_flag_witness:
  "(\<forall>ps. pole_iff_wrap ps False = pole_never ps False) \<and>
   areaOf pole_iff_wrap False equator3 1 True = areaOf pole_never False equator3 1 True"
proof -
  have h: "\<And>ps. pole_iff_wrap ps False = pole_never ps False"
    by (simp add: pole_iff_wrap_def pole_never_def)
  from area_pole_flag[of pole_iff_wrap pole_never, OF h] h show ?thesis by blast
qed

text \<open>
  C4 as stated fails: with \<open>wrap = True\<close> the predicates \<open>pole_iff_wrap\<close> and
  \<open>pole_always\<close> agree at the wrap flag of \<^verbatim>\<open>areaOf\<close>, yet the areas differ,
  because \<^verbatim>\<open>areaOf\<close> asks them at \<open>wrap = False\<close>.
\<close>

theorem area_wrap_counterexample:
  "pole_iff_wrap equator3 True = pole_always equator3 True \<and>
   areaOf pole_iff_wrap False equator3 1 True \<noteq> areaOf pole_always False equator3 1 True"
  by (simp add: area_equator3 pole_iff_wrap_def pole_always_def)


section \<open>Reversing a polygon\<close>

















































section \<open>The two paths of the enclosure test\<close>

lemma atan2_gt_half: "0 < s \<Longrightarrow> pi / 2 < atan2 s d \<longleftrightarrow> d < 0"
  using arctan_ubound[of "s / d"] arctan_lbound[of "s / d"]
  by (auto simp add: atan2_def)

lemma atan2_neg: "0 < s \<Longrightarrow> atan2 (- s) d < 0"
proof -
  assume s: "0 < s"
  consider "0 < d" | "d < 0" | "d = 0" by linarith
  then show ?thesis
  proof cases
    case 1
    then have "- s / d < 0" using s by (simp add: divide_neg_pos)
    then have "arctan (- s / d) < 0" by (simp only: arctan_less_zero_iff)
    then show ?thesis using 1 by (simp add: atan2_def)
  next
    case 2
    have "arctan (- s / d) < pi / 2" by (rule arctan_ubound)
    then have "arctan (- s / d) - pi < 0" using pi_gt_zero by linarith
    then show ?thesis using 2 s by (simp add: atan2_def)
  next
    case 3
    then show ?thesis using s by (simp add: atan2_def)
  qed
qed

lemma atan2_nonneg: "0 < s \<Longrightarrow> 0 \<le> atan2 s d"
proof -
  assume s: "0 < s"
  consider "0 < d" | "d < 0" | "d = 0" by linarith
  then show ?thesis
  proof cases
    case 1
    then have "0 < s / d" using s by simp
    then have "0 < arctan (s / d)" by (simp only: zero_less_arctan_iff)
    then show ?thesis using 1 by (simp add: atan2_def)
  next
    case 2
    have "- (pi / 2) < arctan (s / d)" by (rule arctan_lbound)
    then have "0 \<le> arctan (s / d) + pi" using pi_gt_zero by linarith
    then show ?thesis using 2 s by (simp add: atan2_def)
  next
    case 3
    then show ?thesis using s by (simp add: atan2_def)
  qed
qed

lemma side_iff:
  "PI_2 < angleTo g n0 None \<longleftrightarrow> EPS \<le> length3 (cross g n0) \<and> dot g n0 < 0"
proof (cases "length3 (cross g n0) < EPS")
  case True
  then show ?thesis by (simp add: angleTo_def PI_2_def Let_def)
next
  case False
  then have "0 < length3 (cross g n0)" using EPS_pos by linarith
  from atan2_gt_half[OF this, of "dot g n0"] False show ?thesis
    by (simp add: angleTo_def PI_2_def Let_def)
qed

lemma signed_iff:
  "angleTo g1 g2 (Some n0) < 0 \<longleftrightarrow> EPS \<le> length3 (cross g1 g2) \<and> dot (cross g1 g2) n0 < 0"
proof (cases "length3 (cross g1 g2) < EPS")
  case True
  then show ?thesis by (simp add: angleTo_def Let_def)
next
  case False
  then have s: "0 < length3 (cross g1 g2)" using EPS_pos by linarith
  show ?thesis
  proof (cases "dot (cross g1 g2) n0 < 0")
    case True
    with False atan2_neg[OF s, of "dot g1 g2"] show ?thesis
      by (simp add: angleTo_def Let_def)
  next
    case no: False
    with False atan2_nonneg[OF s, of "dot g1 g2"] show ?thesis
      by (simp add: angleTo_def Let_def)
  qed
qed

lemma EPS_le_sqrt_half: "EPS \<le> sqrt (1 / 2)"
proof -
  have "EPS\<^sup>2 \<le> 1 / 2" by (simp add: EPS_def power_divide)
  then show ?thesis using EPS_pos by (simp add: real_le_rsqrt)
qed

lemma radians_values:
  "radians 45 = pi / 4" "radians (- 45) = - (pi / 4)" "radians 90 = pi / 2"
  "radians 180 = pi" "radians 0 = 0"
  by (simp_all add: radians_def)

lemma quad4_vectors:
  "toVector3d \<lparr>lat = - 45, lon = 0, height = 0\<rparr> = Vector3d (sqrt 2 / 2) 0 (- (sqrt 2 / 2))"
  "toVector3d \<lparr>lat = 45, lon = 90, height = 0\<rparr> = Vector3d 0 (sqrt 2 / 2) (sqrt 2 / 2)"
  "toVector3d \<lparr>lat = - 45, lon = 180, height = 0\<rparr> = Vector3d (- (sqrt 2 / 2)) 0 (- (sqrt 2 / 2))"
  "toVector3d \<lparr>lat = - 45, lon = 90, height = 0\<rparr> = Vector3d 0 (sqrt 2 / 2) (- (sqrt 2 / 2))"
  "toVector3d north_pole = Vector3d 0 0 1"
  by (simp_all add: toVector3d_def to2ab_def radians_values cos_45 sin_45 north_pole_def)

lemma quad4_gcs:
  "edge_gcs (Vector3d 0 (sqrt 2 / 2) (- (sqrt 2 / 2))) quad4 =
     [Vector3d (- (1 / 2)) (- (1 / 2)) (- (1 / 2)), Vector3d (1 / 2) (- (1 / 2)) (1 / 2),
      Vector3d (- (1 / 2)) (- (1 / 2)) (1 / 2), Vector3d (1 / 2) (- (1 / 2)) (- (1 / 2))]"
  by (simp add: quad4_def quad4_vectors Let_def)

lemma points2_quad4: "points2 quad4 True = Inr (4, quad4)"
  by (simp add: points2_def quad4_def same_point_def Let_def eval_nat_numeral)

lemma quad4_sides:
  "PI_2 < angleTo (Vector3d (- (1 / 2)) (- (1 / 2)) (- (1 / 2))) (Vector3d 0 0 1) None"
  "\<not> PI_2 < angleTo (Vector3d (1 / 2) (- (1 / 2)) (1 / 2)) (Vector3d 0 0 1) None"
  "PI_2 < angleTo (Vector3d (1 / 2) (- (1 / 2)) (- (1 / 2))) (Vector3d 0 0 1) None"
  using EPS_le_sqrt_half by (simp_all add: side_iff power2_eq_square)

lemma quad4_turn:
  "angleTo (Vector3d (1 / 2) (- (1 / 2)) (- (1 / 2))) (Vector3d (- (1 / 2)) (- (1 / 2)) (- (1 / 2)))
     (Some (Vector3d 0 0 1)) < 0"
  using EPS_le_sqrt_half by (simp add: signed_iff power2_eq_square)

lemma quad4_plain: "isenclosedBy False north_pole quad4 = Inr False"
proof -
  have l: "quad4 ! 3 = \<lparr>lat = - 45, lon = 90, height = 0\<rparr>" "take 4 quad4 = quad4"
    by (simp_all add: quad4_def)
  show ?thesis
    unfolding isenclosedBy_def points2_quad4
    by (simp add: l quad4_vectors quad4_gcs quad4_sides Let_def)
qed

lemma quad4_numpy: "isenclosedBy True north_pole quad4 = Inl Non_convex"
proof -
  have l: "quad4 ! 3 = \<lparr>lat = - 45, lon = 90, height = 0\<rparr>" "take 4 quad4 = quad4"
      "quad4 ! 2 = \<lparr>lat = - 45, lon = 180, height = 0\<rparr>"
    by (simp_all add: quad4_def)
  have e: "enclosed_np (Vector3d 0 0 1) True (Vector3d 0 (sqrt 2 / 2) (- (sqrt 2 / 2)))
             (Vector3d (1 / 2) (- (1 / 2)) (- (1 / 2))) quad4 = Inl Non_convex"
    by (simp add: quad4_def quad4_vectors quad4_sides quad4_turn Let_def)
  show ?thesis
    unfolding isenclosedBy_def points2_quad4
    by (simp add: l quad4_vectors quad4_sides e Let_def)
qed

lemma quad4_convexity: "convexity_fails north_pole quad4"
proof -
  have l: "last quad4 = \<lparr>lat = - 45, lon = 90, height = 0\<rparr>" by (simp add: quad4_def)
  show ?thesis
    unfolding convexity_fails_def l quad4_vectors quad4_gcs Let_def
    by (simp add: quad4_turn)
qed

lemma quad4_side_edges: "side_of_edge north_pole quad4 0" "\<not> side_of_edge north_pole quad4 1"
proof -
  have l: "last quad4 = \<lparr>lat = - 45, lon = 90, height = 0\<rparr>" by (simp add: quad4_def)
  show "side_of_edge north_pole quad4 0" "\<not> side_of_edge north_pole quad4 1"
    unfolding side_of_edge_def l quad4_vectors quad4_gcs
    by (simp_all add: quad4_sides)
qed

text \<open>
  C10. There is a polygon that is not convex and a query point on different
  sides of its first two edges for which the plain-sequence path of
  \<^verbatim>\<open>isenclosedBy\<close> returns \<open>False\<close> and raises no non-convex error: the side tests
  all run before the convexity test.
\<close>

theorem enclosed_false_on_non_convex:
  "convexity_fails north_pole quad4 \<and>
   side_of_edge north_pole quad4 1 \<noteq> side_of_edge north_pole quad4 0 \<and>
   isenclosedBy False north_pole quad4 = Inr False"
  using quad4_convexity quad4_side_edges quad4_plain by simp

text \<open>
  C5. The two paths of \<^verbatim>\<open>isenclosedBy\<close> disagree on that polygon and point: the
  bulk-array path tests the convexity at the first edge before the side of
  the second and raises, the plain-sequence path returns \<open>False\<close>.
\<close>

theorem enclosed_paths_differ:
  "isenclosedBy True north_pole quad4 = Inl Non_convex \<and>
   isenclosedBy False north_pole quad4 = Inr False"
  using quad4_numpy quad4_plain by simp

end
